theory Spec2Isabelle
  imports Complex_Main
begin

section \<open>JavaScript values and coercions used by server.ts\<close>

text \<open>
  The handlers of \<^verbatim>\<open>src/server.ts\<close> read \<^verbatim>\<open>req.body\<close> (type \<^verbatim>\<open>any\<close>),
  test fields for truthiness, coerce them with \<^verbatim>\<open>Number\<close> and \<^verbatim>\<open>String\<close> and compare
  numbers with \<^verbatim>\<open>>=\<close> and \<^verbatim>\<open><=\<close>. TypeScript's annotations are erased at run time, so
  the values that flow through the handlers are modelled as dynamically typed values.

  Numbers are IEEE doubles in the source. Here a number is \<open>NaN\<close>, an infinity or an
  exact rational: rounding and overflow of doubles are not modelled, and \<open>-0\<close> is
  identified with \<open>0\<close>. Strings are lists of 8-bit characters; case conversion is
  modelled on ASCII letters.
\<close>

datatype jsnum = NaN | PInf | NInf | Fin rat

datatype jsval =
    JUndefined
  | JNull
  | JBool bool
  | JNum jsnum
  | JStr string
  | JDate int
  | JArr "jsval list"
  | JObj "(string \<times> jsval) list"

text \<open>ToBoolean: the test behind \<^verbatim>\<open>!x\<close>, \<^verbatim>\<open>x || y\<close> and \<^verbatim>\<open>if (x)\<close>.\<close>

fun truthy :: "jsval \<Rightarrow> bool" where
  "truthy JUndefined = False"
| "truthy JNull = False"
| "truthy (JBool b) = b"
| "truthy (JNum n) = (n \<noteq> NaN \<and> n \<noteq> Fin 0)"
| "truthy (JStr s) = (s \<noteq> [])"
| "truthy (JDate t) = True"
| "truthy (JArr xs) = True"
| "truthy (JObj kvs) = True"

text \<open>\<^verbatim>\<open>a || b\<close>\<close>

definition js_or :: "jsval \<Rightarrow> jsval \<Rightarrow> jsval" where
  "js_or a b = (if truthy a then a else b)"

text \<open>\<^verbatim>\<open>a <= b\<close> and \<^verbatim>\<open>a >= b\<close> on numbers: false as soon as one side is \<open>NaN\<close>.\<close>

fun js_le :: "jsnum \<Rightarrow> jsnum \<Rightarrow> bool" where
  "js_le NaN b = False"
| "js_le a NaN = False"
| "js_le NInf b = True"
| "js_le a PInf = True"
| "js_le (Fin a) (Fin b) = (a \<le> b)"
| "js_le PInf b = False"
| "js_le a NInf = False"

definition js_ge :: "jsnum \<Rightarrow> jsnum \<Rightarrow> bool" where
  "js_ge a b = js_le b a"

subsection \<open>Strings\<close>

definition toLowerCase_char :: "char \<Rightarrow> char" where
  "toLowerCase_char c =
     (let n = (of_char c :: nat) in if 65 \<le> n \<and> n \<le> 90 then char_of (n + 32) else c)"

definition toLowerCase :: "string \<Rightarrow> string" where
  "toLowerCase s = map toLowerCase_char s"

text \<open>\<^verbatim>\<open>String(n)\<close> for a non-negative integer \<open>n\<close>: its decimal digits.\<close>

definition digit_char :: "nat \<Rightarrow> char" where
  "digit_char d = ''0123456789'' ! d"

fun String_nat :: "nat \<Rightarrow> string" where
  "String_nat n =
     (if n < 10 then [digit_char n] else String_nat (n div 10) @ [digit_char (n mod 10)])"

declare String_nat.simps [simp del]

subsection \<open>StringToNumber\<close>

text \<open>
  \<^verbatim>\<open>Number(s)\<close> on a string, after ECMAScript's StringNumericLiteral grammar: white
  space (here: the ASCII white space characters) is trimmed, the empty string is \<open>0\<close>,
  then either a binary, octal or
  hexadecimal integer literal (no sign), or an optionally signed \<^verbatim>\<open>Infinity\<close> or
  decimal literal with optional fraction and exponent; anything else is \<open>NaN\<close>.
\<close>

definition is_ws :: "char \<Rightarrow> bool" where
  "is_ws c = ((of_char c :: nat) \<in> {9, 10, 11, 12, 13, 32})"

definition trim :: "string \<Rightarrow> string" where
  "trim s = rev (dropWhile is_ws (rev (dropWhile is_ws s)))"

definition is_digit :: "char \<Rightarrow> bool" where
  "is_digit c = (48 \<le> (of_char c :: nat) \<and> (of_char c :: nat) \<le> 57)"

text \<open>The value of a digit in a given radix, if it is one.\<close>

definition digit_in :: "nat \<Rightarrow> char \<Rightarrow> nat option" where
  "digit_in radix c =
     (let n = (of_char c :: nat);
          v = (if 48 \<le> n \<and> n \<le> 57 then Some (n - 48)
               else if 97 \<le> n \<and> n \<le> 102 then Some (n - 87)
               else if 65 \<le> n \<and> n \<le> 70 then Some (n - 55)
               else None)
      in case v of None \<Rightarrow> None | Some d \<Rightarrow> if d < radix then Some d else None)"

fun digits_in :: "nat \<Rightarrow> nat \<Rightarrow> string \<Rightarrow> nat option" where
  "digits_in radix acc [] = Some acc"
| "digits_in radix acc (c # cs) =
     (case digit_in radix c of
        None \<Rightarrow> None
      | Some d \<Rightarrow> digits_in radix (radix * acc + d) cs)"

definition integer_literal :: "nat \<Rightarrow> string \<Rightarrow> jsnum" where
  "integer_literal radix ds =
     (if ds = [] then NaN
      else case digits_in radix 0 ds of None \<Rightarrow> NaN | Some v \<Rightarrow> Fin (of_nat v))"

definition decimal_value :: "string \<Rightarrow> nat" where
  "decimal_value ds = (case digits_in 10 0 ds of None \<Rightarrow> 0 | Some v \<Rightarrow> v)"

text \<open>ExponentPart: \<^verbatim>\<open>e\<close> or \<^verbatim>\<open>E\<close>, an optional sign, at least one digit.\<close>

definition exponent_part :: "string \<Rightarrow> int option" where
  "exponent_part s =
     (case s of
        [] \<Rightarrow> Some 0
      | c # r \<Rightarrow>
          if c = CHR ''e'' \<or> c = CHR ''E'' then
            (let neg = (r \<noteq> [] \<and> hd r = CHR ''-'');
                 ds = (if r \<noteq> [] \<and> (hd r = CHR ''-'' \<or> hd r = CHR ''+'') then tl r else r)
             in if ds \<noteq> [] \<and> list_all is_digit ds
                then Some (if neg then - int (decimal_value ds) else int (decimal_value ds))
                else None)
          else None)"

definition scale10 :: "rat \<Rightarrow> int \<Rightarrow> rat" where
  "scale10 m e = (if 0 \<le> e then m * 10 ^ nat e else m / 10 ^ nat (- e))"

definition unsigned_decimal :: "string \<Rightarrow> jsnum" where
  "unsigned_decimal u =
     (if u = ''Infinity'' then PInf
      else
        let ip = takeWhile is_digit u;
            r1 = dropWhile is_digit u;
            dot = (r1 \<noteq> [] \<and> hd r1 = CHR ''.'');
            fp = (if dot then takeWhile is_digit (tl r1) else []);
            r2 = (if dot then dropWhile is_digit (tl r1) else r1)
        in if ip = [] \<and> fp = [] then NaN
           else case exponent_part r2 of
                  None \<Rightarrow> NaN
                | Some e \<Rightarrow>
                    Fin (scale10
                      (of_nat (decimal_value ip) + of_nat (decimal_value fp) / 10 ^ length fp) e))"

fun negate :: "jsnum \<Rightarrow> jsnum" where
  "negate NaN = NaN"
| "negate PInf = NInf"
| "negate NInf = PInf"
| "negate (Fin q) = Fin (- q)"

definition StringToNumber :: "string \<Rightarrow> jsnum" where
  "StringToNumber s =
     (let t = trim s in
      case t of
        [] \<Rightarrow> Fin 0
      | c # r \<Rightarrow>
          if c = CHR ''0'' \<and> r \<noteq> [] \<and> hd r \<in> {CHR ''x'', CHR ''X''} then integer_literal 16 (tl r)
          else if c = CHR ''0'' \<and> r \<noteq> [] \<and> hd r \<in> {CHR ''o'', CHR ''O''} then integer_literal 8 (tl r)
          else if c = CHR ''0'' \<and> r \<noteq> [] \<and> hd r \<in> {CHR ''b'', CHR ''B''} then integer_literal 2 (tl r)
          else if c = CHR ''+'' then unsigned_decimal r
          else if c = CHR ''-'' then negate (unsigned_decimal r)
          else unsigned_decimal t)"

text \<open>
  \<^verbatim>\<open>Number(v)\<close>. An array is converted through its string form, the elements joined
  by commas: the empty array is \<open>0\<close>, a one-element array converts as the string form
  of its element (\<^verbatim>\<open>null\<close> and \<^verbatim>\<open>undefined\<close> print as the empty string, a number
  prints as a literal that reads back as itself), and a longer array holds a comma
  and is \<open>NaN\<close>. A plain object prints as \<^verbatim>\<open>[object Object]\<close> and a date element as a
  date text, both \<open>NaN\<close>; a date itself converts to its time value.
\<close>

fun Number :: "jsval \<Rightarrow> jsnum" where
  "Number JUndefined = NaN"
| "Number JNull = Fin 0"
| "Number (JBool b) = (if b then Fin 1 else Fin 0)"
| "Number (JNum n) = n"
| "Number (JStr s) = StringToNumber s"
| "Number (JDate t) = Fin (of_int t)"
| "Number (JObj kvs) = NaN"
| "Number (JArr []) = Fin 0"
| "Number (JArr [JUndefined]) = Fin 0"
| "Number (JArr [JNull]) = Fin 0"
| "Number (JArr [JBool b]) = NaN"
| "Number (JArr [JNum n]) = n"
| "Number (JArr [JStr s]) = StringToNumber s"
| "Number (JArr [JDate t]) = NaN"
| "Number (JArr [JObj kvs]) = NaN"
| "Number (JArr [JArr xs]) = Number (JArr xs)"
| "Number (JArr (x # y # zs)) = NaN"

text \<open>
  Query-string values. Express parses the query with the extended parser: a parameter
  is absent, a string, or (for repeated or bracketed keys) an array or an object of
  such values.
\<close>

datatype qsval = QStr string | QArr "qsval list" | QObj "(string \<times> qsval) list"

fun commas :: "string list \<Rightarrow> string" where
  "commas [] = []"
| "commas [s] = s"
| "commas (s # t # ss) = s @ '','' @ commas (t # ss)"

text \<open>\<^verbatim>\<open>String(q)\<close>: an array joins the string forms of its elements with commas.\<close>

fun String_q :: "qsval \<Rightarrow> string" where
  "String_q (QStr s) = s"
| "String_q (QArr xs) = commas (map String_q xs)"
| "String_q (QObj kvs) = ''[object Object]''"

text \<open>
  Truthiness of a parameter that is present: only the empty string is falsy. An
  absent parameter is \<^verbatim>\<open>undefined\<close>, which is falsy too; it is \<open>None\<close> below.
\<close>

fun truthy_q :: "qsval \<Rightarrow> bool" where
  "truthy_q (QStr s) = (s \<noteq> [])"
| "truthy_q (QArr xs) = True"
| "truthy_q (QObj kvs) = True"

text \<open>\<^verbatim>\<open>Number(q)\<close>: arrays and objects convert through their string form.\<close>

definition Number_q :: "qsval \<Rightarrow> jsnum" where
  "Number_q q = StringToNumber (String_q q)"

section \<open>Data model\<close>

text \<open>
  The interfaces \<^verbatim>\<open>User\<close> and \<^verbatim>\<open>Product\<close>. The identifier is always produced by
  \<^verbatim>\<open>String(...)\<close>, prices and stocks by \<^verbatim>\<open>Number(...)\<close>, the creation time by
  \<^verbatim>\<open>new Date()\<close>; names, e-mail addresses and categories are stored as they arrive in
  the request body.
\<close>

record user =
  user_id :: string
  user_name :: jsval
  user_email :: jsval
  user_createdAt :: int

record product =
  product_id :: string
  product_name :: jsval
  product_price :: jsnum
  product_category :: jsval
  product_stock :: jsnum

text \<open>The two module-level arrays.\<close>

record store =
  users :: "user list"
  products :: "product list"

text \<open>
  The seeded arrays; \<open>t0\<close> is the time at which the module is loaded (the two calls of
  \<^verbatim>\<open>new Date()\<close> for the seeded users are taken to fall into the same millisecond).
\<close>

definition initial_users :: "int \<Rightarrow> user list" where
  "initial_users t0 =
     [\<lparr>user_id = ''1'', user_name = JStr ''John Doe'', user_email = JStr ''john@example.com'',
       user_createdAt = t0\<rparr>,
      \<lparr>user_id = ''2'', user_name = JStr ''Jane Smith'', user_email = JStr ''jane@example.com'',
       user_createdAt = t0\<rparr>]"

definition initial_products :: "product list" where
  "initial_products =
     [\<lparr>product_id = ''1'', product_name = JStr ''Laptop'', product_price = Fin 3500,
       product_category = JStr ''Electronics'', product_stock = Fin 10\<rparr>,
      \<lparr>product_id = ''2'', product_name = JStr ''Gaming Mouse'', product_price = Fin 150,
       product_category = JStr ''Peripherals'', product_stock = Fin 50\<rparr>,
      \<lparr>product_id = ''3'', product_name = JStr ''Mechanical Keyboard'', product_price = Fin 400,
       product_category = JStr ''Peripherals'', product_stock = Fin 30\<rparr>]"

definition initial_store :: "int \<Rightarrow> store" where
  "initial_store t0 = \<lparr>users = initial_users t0, products = initial_products\<rparr>"

text \<open>
  What a handler reads of the request. \<open>path\<close> is the path name the router matches,
  \<open>originalUrl\<close> the request target as received, \<open>params_id\<close> is
  \<^verbatim>\<open>req.params.id\<close> as Express fills it in for a matched \<^verbatim>\<open>:id\<close> route. A body field
  that is missing from the parsed body is \<open>JUndefined\<close>.
\<close>

record request =
  http_method :: string
  path :: string
  originalUrl :: string
  params_id :: string
  query_category :: "qsval option"
  query_minPrice :: "qsval option"
  query_maxPrice :: "qsval option"
  body_name :: jsval
  body_email :: jsval
  body_price :: jsval
  body_category :: jsval
  body_stock :: jsval

text \<open>
  What a handler reads of the process: the clock (\<^verbatim>\<open>new Date()\<close>, as a time value and
  as ISO text), \<^verbatim>\<open>process.uptime()\<close>, \<^verbatim>\<open>process.env.NODE_ENV\<close>, and the stack text the
  engine attaches to an error.
\<close>

record env =
  now :: int
  now_iso :: string
  uptime :: rat
  NODE_ENV :: "string option"
  err_stack :: string

record response =
  status :: nat
  body :: jsval

text \<open>
  Errors passed to \<^verbatim>\<open>next(err)\<close> or thrown: the class \<open>AppError\<close> (message, status
  code) and the engine's \<open>TypeError\<close> (message, no status code).
\<close>

datatype js_error = AppError string nat | TypeError string

fun message :: "js_error \<Rightarrow> string" where
  "message (AppError m c) = m"
| "message (TypeError m) = m"

fun statusCode :: "js_error \<Rightarrow> nat option" where
  "statusCode (AppError m c) = Some c"
| "statusCode (TypeError m) = None"

definition num :: "nat \<Rightarrow> jsval" where
  "num n = JNum (Fin (of_nat n))"

definition user_json :: "user \<Rightarrow> jsval" where
  "user_json u =
     JObj [(''id'', JStr (user_id u)), (''name'', user_name u), (''email'', user_email u),
           (''createdAt'', JDate (user_createdAt u))]"

definition product_json :: "product \<Rightarrow> jsval" where
  "product_json p =
     JObj [(''id'', JStr (product_id p)), (''name'', product_name p),
           (''price'', JNum (product_price p)), (''category'', product_category p),
           (''stock'', JNum (product_stock p))]"

text \<open>\<^verbatim>\<open>Array.prototype.findIndex\<close> (\<open>None\<close> for \<open>-1\<close>) and \<^verbatim>\<open>splice(i, 1)\<close>.\<close>

fun findIndex :: "('a \<Rightarrow> bool) \<Rightarrow> 'a list \<Rightarrow> nat option" where
  "findIndex P [] = None"
| "findIndex P (x # xs) = (if P x then Some 0 else map_option Suc (findIndex P xs))"

definition splice1 :: "nat \<Rightarrow> 'a list \<Rightarrow> 'a list" where
  "splice1 i xs = take i xs @ drop (Suc i) xs"

section \<open>User routes\<close>

definition get_users :: "store \<Rightarrow> response" where
  "get_users st =
     \<lparr>status = 200,
      body = JObj [(''success'', JBool True), (''count'', num (length (users st))),
                   (''data'', JArr (map user_json (users st)))]\<rparr>"

definition get_user_by_id :: "store \<Rightarrow> request \<Rightarrow> js_error + response" where
  "get_user_by_id st req =
     (case find (\<lambda>u. user_id u = params_id req) (users st) of
        None \<Rightarrow> Inl (AppError ''User not found'' 404)
      | Some user \<Rightarrow>
          Inr \<lparr>status = 200, body = JObj [(''success'', JBool True), (''data'', user_json user)]\<rparr>)"

definition newUser :: "env \<Rightarrow> store \<Rightarrow> request \<Rightarrow> user" where
  "newUser e st req =
     \<lparr>user_id = String_nat (length (users st) + 1), user_name = body_name req,
      user_email = body_email req, user_createdAt = now e\<rparr>"

definition post_users :: "env \<Rightarrow> store \<Rightarrow> request \<Rightarrow> store \<times> (js_error + response)" where
  "post_users e st req =
     (let name = body_name req; email = body_email req in
      if \<not> truthy name \<or> \<not> truthy email then
        (st, Inl (AppError ''Name and email are required'' 400))
      else
        (st\<lparr>users := users st @ [newUser e st req]\<rparr>,
         Inr \<lparr>status = 201,
              body = JObj [(''success'', JBool True),
                           (''message'', JStr ''User created successfully''),
                           (''data'', user_json (newUser e st req))]\<rparr>))"

definition put_user :: "store \<Rightarrow> request \<Rightarrow> store \<times> (js_error + response)" where
  "put_user st req =
     (case findIndex (\<lambda>u. user_id u = params_id req) (users st) of
        None \<Rightarrow> (st, Inl (AppError ''User not found'' 404))
      | Some userIndex \<Rightarrow>
          let old = users st ! userIndex;
              updated = old\<lparr>user_name := js_or (body_name req) (user_name old),
                            user_email := js_or (body_email req) (user_email old)\<rparr>
          in (st\<lparr>users := (users st)[userIndex := updated]\<rparr>,
              Inr \<lparr>status = 200,
                   body = JObj [(''success'', JBool True),
                                (''message'', JStr ''User updated successfully''),
                                (''data'', user_json updated)]\<rparr>))"

definition delete_user :: "store \<Rightarrow> request \<Rightarrow> store \<times> (js_error + response)" where
  "delete_user st req =
     (case findIndex (\<lambda>u. user_id u = params_id req) (users st) of
        None \<Rightarrow> (st, Inl (AppError ''User not found'' 404))
      | Some userIndex \<Rightarrow>
          (st\<lparr>users := splice1 userIndex (users st)\<rparr>,
           Inr \<lparr>status = 200,
                body = JObj [(''success'', JBool True),
                             (''message'', JStr ''User deleted successfully'')]\<rparr>))"

section \<open>Product routes\<close>

text \<open>
  \<^verbatim>\<open>p.category.toLowerCase()\<close>: defined on a string only. On any other stored value the
  call throws a TypeError, which Express hands to the error handler. The texts are the
  engine's, written here without their inner quotation marks.
\<close>

fun category_toLowerCase :: "jsval \<Rightarrow> js_error + string" where
  "category_toLowerCase (JStr s) = Inr (toLowerCase s)"
| "category_toLowerCase JUndefined =
     Inl (TypeError ''Cannot read properties of undefined (reading toLowerCase)'')"
| "category_toLowerCase JNull =
     Inl (TypeError ''Cannot read properties of null (reading toLowerCase)'')"
| "category_toLowerCase v = Inl (TypeError ''p.category.toLowerCase is not a function'')"

text \<open>
  \<^verbatim>\<open>filteredProducts.filter(p => p.category.toLowerCase() === String(category).toLowerCase())\<close>:
  the callback runs on the elements in order and the first throw ends the filter.
\<close>

fun filter_category :: "qsval \<Rightarrow> product list \<Rightarrow> js_error + product list" where
  "filter_category category [] = Inr []"
| "filter_category category (p # ps) =
     (case category_toLowerCase (product_category p) of
        Inl err \<Rightarrow> Inl err
      | Inr c \<Rightarrow>
          (case filter_category category ps of
             Inl err \<Rightarrow> Inl err
           | Inr rest \<Rightarrow> Inr (if c = toLowerCase (String_q category) then p # rest else rest)))"

definition get_products :: "store \<Rightarrow> request \<Rightarrow> js_error + response" where
  "get_products st req =
     (let category = query_category req; minPrice = query_minPrice req;
          maxPrice = query_maxPrice req;
          byCategory = (case category of
                          None \<Rightarrow> Inr (products st)
                        | Some c \<Rightarrow>
                            if truthy_q c then filter_category c (products st)
                            else Inr (products st))
      in case byCategory of
           Inl err \<Rightarrow> Inl err
         | Inr ps1 \<Rightarrow>
             let ps2 = (case minPrice of
                          None \<Rightarrow> ps1
                        | Some lo \<Rightarrow>
                            if truthy_q lo
                            then filter (\<lambda>p. js_ge (product_price p) (Number_q lo)) ps1
                            else ps1);
                 filteredProducts =
                       (case maxPrice of
                          None \<Rightarrow> ps2
                        | Some hi \<Rightarrow>
                            if truthy_q hi
                            then filter (\<lambda>p. js_le (product_price p) (Number_q hi)) ps2
                            else ps2)
             in Inr \<lparr>status = 200,
                     body = JObj [(''success'', JBool True),
                                  (''count'', num (length filteredProducts)),
                                  (''data'', JArr (map product_json filteredProducts))]\<rparr>)"

definition get_product_by_id :: "store \<Rightarrow> request \<Rightarrow> js_error + response" where
  "get_product_by_id st req =
     (case find (\<lambda>p. product_id p = params_id req) (products st) of
        None \<Rightarrow> Inl (AppError ''Product not found'' 404)
      | Some product \<Rightarrow>
          Inr \<lparr>status = 200,
               body = JObj [(''success'', JBool True), (''data'', product_json product)]\<rparr>)"

definition newProduct :: "store \<Rightarrow> request \<Rightarrow> product" where
  "newProduct st req =
     \<lparr>product_id = String_nat (length (products st) + 1), product_name = body_name req,
      product_price = Number (body_price req), product_category = body_category req,
      product_stock = Number (body_stock req)\<rparr>"

definition post_products :: "store \<Rightarrow> request \<Rightarrow> store \<times> (js_error + response)" where
  "post_products st req =
     (let name = body_name req; price = body_price req; category = body_category req;
          stock = body_stock req in
      if \<not> truthy name \<or> \<not> truthy price \<or> \<not> truthy category \<or> stock = JUndefined then
        (st, Inl (AppError ''All fields are required'' 400))
      else
        (st\<lparr>products := products st @ [newProduct st req]\<rparr>,
         Inr \<lparr>status = 201,
              body = JObj [(''success'', JBool True),
                           (''message'', JStr ''Product created successfully''),
                           (''data'', product_json (newProduct st req))]\<rparr>))"

definition put_product :: "store \<Rightarrow> request \<Rightarrow> store \<times> (js_error + response)" where
  "put_product st req =
     (case findIndex (\<lambda>p. product_id p = params_id req) (products st) of
        None \<Rightarrow> (st, Inl (AppError ''Product not found'' 404))
      | Some productIndex \<Rightarrow>
          let old = products st ! productIndex;
              name = body_name req; price = body_price req; category = body_category req;
              stock = body_stock req;
              updated = old\<lparr>product_name := js_or name (product_name old),
                            product_price :=
                              (if price \<noteq> JUndefined then Number price else product_price old),
                            product_category := js_or category (product_category old),
                            product_stock :=
                              (if stock \<noteq> JUndefined then Number stock else product_stock old)\<rparr>
          in (st\<lparr>products := (products st)[productIndex := updated]\<rparr>,
              Inr \<lparr>status = 200,
                   body = JObj [(''success'', JBool True),
                                (''message'', JStr ''Product updated successfully''),
                                (''data'', product_json updated)]\<rparr>))"

definition delete_product :: "store \<Rightarrow> request \<Rightarrow> store \<times> (js_error + response)" where
  "delete_product st req =
     (case findIndex (\<lambda>p. product_id p = params_id req) (products st) of
        None \<Rightarrow> (st, Inl (AppError ''Product not found'' 404))
      | Some productIndex \<Rightarrow>
          (st\<lparr>products := splice1 productIndex (products st)\<rparr>,
           Inr \<lparr>status = 200,
                body = JObj [(''success'', JBool True),
                             (''message'', JStr ''Product deleted successfully'')]\<rparr>))"

section \<open>General routes, the 404 route and the global error handler\<close>

definition root :: response where
  "root =
     \<lparr>status = 200,
      body = JObj [(''message'', JStr ''RESTful API with Node.js + TypeScript''),
                   (''version'', JStr ''1.0.0''),
                   (''endpoints'', JObj [(''users'', JStr ''/api/users''),
                                        (''products'', JStr ''/api/products'')])]\<rparr>"

definition health :: "env \<Rightarrow> response" where
  "health e =
     \<lparr>status = 200,
      body = JObj [(''status'', JStr ''OK''), (''uptime'', JNum (Fin (uptime e))),
                   (''timestamp'', JStr (now_iso e))]\<rparr>"

text \<open>\<^verbatim>\<open>app.use('*', ...)\<close>, registered after every route.\<close>

definition not_found :: "request \<Rightarrow> response" where
  "not_found req =
     \<lparr>status = 404,
      body = JObj [(''success'', JBool False), (''error'', JStr ''Route not found''),
                   (''path'', JStr (originalUrl req))]\<rparr>"

text \<open>
  The four-argument middleware registered last. \<^verbatim>\<open>err.statusCode || 500\<close> falls back
  on a missing and on a zero status code, \<^verbatim>\<open>err.message || '...'\<close> on an empty message.
\<close>

definition error_handler :: "env \<Rightarrow> js_error \<Rightarrow> response" where
  "error_handler e err =
     (let statusCode = (case statusCode err of
                          None \<Rightarrow> 500
                        | Some c \<Rightarrow> if c = 0 then 500 else c);
          message = (if message err = [] then ''Internal server error'' else message err)
      in \<lparr>status = statusCode,
          body = JObj ([(''success'', JBool False), (''error'', JStr message),
                        (''status'', num statusCode)]
                       @ (if NODE_ENV e = Some ''development''
                          then [(''stack'', JStr (err_stack e))] else []))\<rparr>)"

section \<open>Routing\<close>

text \<open>
  Express 4 compiles a route path to a regular expression that ignores case and
  allows one trailing slash; \<^verbatim>\<open>:id\<close> is one non-empty segment without a slash. GET
  routes also answer HEAD. The routes are tried in the order of the source; a request
  that matches none falls through to the 404 route. A handler's error goes to the
  error handler, its response is sent as it is. The response modelled is the status
  set and the value passed to \<^verbatim>\<open>res.json\<close>.

  The requests are those that reach the router: the middleware in front of it
  (helmet, cors, morgan, the body parsers) is outside the model. In particular cors
  answers every OPTIONS request itself, and a body that fails to parse is reported by
  the body parser.
\<close>

datatype route =
    GetUsers | GetUserById | PostUsers | PutUser | DeleteUser
  | GetProducts | GetProductById | PostProducts | PutProduct | DeleteProduct
  | Root | Health

definition path_is :: "string \<Rightarrow> string \<Rightarrow> bool" where
  "path_is pat p = (toLowerCase p = pat \<or> toLowerCase p = pat @ ''/'')"

definition path_root :: "string \<Rightarrow> bool" where
  "path_root p = (p = [] \<or> p = ''/'')"

definition path_with_id :: "string \<Rightarrow> string \<Rightarrow> bool" where
  "path_with_id pre p =
     (let n = length pre;
          rest = drop n p;
          seg = (if rest \<noteq> [] \<and> last rest = CHR ''/'' then butlast rest else rest)
      in toLowerCase (take n p) = pre \<and> seg \<noteq> [] \<and> CHR ''/'' \<notin> set seg)"

definition match_route :: "string \<Rightarrow> string \<Rightarrow> route option" where
  "match_route m p =
     (let get = (m = ''GET'' \<or> m = ''HEAD'') in
      if get \<and> path_is ''/api/users'' p then Some GetUsers
      else if get \<and> path_with_id ''/api/users/'' p then Some GetUserById
      else if m = ''POST'' \<and> path_is ''/api/users'' p then Some PostUsers
      else if m = ''PUT'' \<and> path_with_id ''/api/users/'' p then Some PutUser
      else if m = ''DELETE'' \<and> path_with_id ''/api/users/'' p then Some DeleteUser
      else if get \<and> path_is ''/api/products'' p then Some GetProducts
      else if get \<and> path_with_id ''/api/products/'' p then Some GetProductById
      else if m = ''POST'' \<and> path_is ''/api/products'' p then Some PostProducts
      else if m = ''PUT'' \<and> path_with_id ''/api/products/'' p then Some PutProduct
      else if m = ''DELETE'' \<and> path_with_id ''/api/products/'' p then Some DeleteProduct
      else if get \<and> path_root p then Some Root
      else if get \<and> path_is ''/health'' p then Some Health
      else None)"

fun handler :: "route \<Rightarrow> env \<Rightarrow> store \<Rightarrow> request \<Rightarrow> store \<times> (js_error + response)" where
  "handler GetUsers e st req = (st, Inr (get_users st))"
| "handler GetUserById e st req = (st, get_user_by_id st req)"
| "handler PostUsers e st req = post_users e st req"
| "handler PutUser e st req = put_user st req"
| "handler DeleteUser e st req = delete_user st req"
| "handler GetProducts e st req = (st, get_products st req)"
| "handler GetProductById e st req = (st, get_product_by_id st req)"
| "handler PostProducts e st req = post_products st req"
| "handler PutProduct e st req = put_product st req"
| "handler DeleteProduct e st req = delete_product st req"
| "handler Root e st req = (st, Inr root)"
| "handler Health e st req = (st, Inr (health e))"

definition dispatch :: "env \<Rightarrow> store \<Rightarrow> request \<Rightarrow> store \<times> response" where
  "dispatch e st req =
     (case match_route (http_method req) (path req) of
        None \<Rightarrow> (st, not_found req)
      | Some r \<Rightarrow>
          (case handler r e st req of
             (st', Inl err) \<Rightarrow> (st', error_handler e err)
           | (st', Inr res) \<Rightarrow> (st', res)))"

section \<open>Runs of the server and concrete requests\<close>


text \<open>
  \<open>run st st'\<close>: the store \<open>st'\<close> is reached from \<open>st\<close> by handling requests one after
  the other; \<open>no_delete_run\<close>: by requests none of which goes to a DELETE route.
\<close>

inductive run :: "store \<Rightarrow> store \<Rightarrow> bool" where
  run_refl: "run st st"
| run_step: "run st st' \<Longrightarrow> run st (fst (dispatch e st' req))"








text \<open>Concrete inputs: an environment, and a request with no parameters and an empty body.\<close>

definition env0 :: env where
  "env0 = \<lparr>now = 1700000000000, now_iso = ''2023-11-14T22:13:20.000Z'', uptime = 12,
           NODE_ENV = None, err_stack = ''Error: User not found''\<rparr>"

definition env_dev :: env where
  "env_dev = env0\<lparr>NODE_ENV := Some ''development''\<rparr>"

definition request0 :: "string \<Rightarrow> string \<Rightarrow> request" where
  "request0 m p =
     \<lparr>http_method = m, path = p, originalUrl = p, params_id = [],
      query_category = None, query_minPrice = None, query_maxPrice = None,
      body_name = JUndefined, body_email = JUndefined, body_price = JUndefined,
      body_category = JUndefined, body_stock = JUndefined\<rparr>"

text \<open>Requests for the concrete runs below.\<close>

definition post_user_A :: request where
  "post_user_A =
     (request0 ''POST'' ''/api/users'')
       \<lparr>body_name := JStr ''A'', body_email := JStr ''a@x.com''\<rparr>"


definition delete_user_1 :: request where
  "delete_user_1 = (request0 ''DELETE'' ''/api/users/1'')\<lparr>params_id := ''1''\<rparr>"

definition delete_user_2 :: request where
  "delete_user_2 = (request0 ''DELETE'' ''/api/users/2'')\<lparr>params_id := ''2''\<rparr>"

definition get_user_2 :: request where
  "get_user_2 = (request0 ''GET'' ''/api/users/2'')\<lparr>params_id := ''2''\<rparr>"

text \<open>
  A run from the seeded store: \<^verbatim>\<open>DELETE /api/users/1\<close>, then
  \<^verbatim>\<open>POST /api/users {name: "A", email: "a@x.com"}\<close>, then \<^verbatim>\<open>DELETE /api/users/2\<close>.
\<close>

definition after_delete_1 :: store where
  "after_delete_1 = fst (dispatch env0 (initial_store 0) delete_user_1)"

definition after_create_A :: store where
  "after_create_A = fst (dispatch env0 after_delete_1 post_user_A)"

definition after_delete_2 :: store where
  "after_delete_2 = fst (dispatch env0 after_create_A delete_user_2)"

definition put_user_1_empty_name :: request where
  "put_user_1_empty_name =
     (request0 ''PUT'' ''/api/users/1'')\<lparr>params_id := ''1'', body_name := JStr []\<rparr>"




definition get_products_peripherals_200 :: request where
  "get_products_peripherals_200 =
     (request0 ''GET'' ''/api/products'')
       \<lparr>originalUrl := ''/api/products?category=PERIPHERALS&minPrice=200'',
        query_category := Some (QStr ''PERIPHERALS''), query_minPrice := Some (QStr ''200'')\<rparr>"

definition post_product_numeric_category :: request where
  "post_product_numeric_category =
     (request0 ''POST'' ''/api/products'')
       \<lparr>body_name := JStr ''Pen'', body_price := JNum (Fin 2), body_category := JNum (Fin 5),
        body_stock := JNum (Fin 1)\<rparr>"

definition post_product_price_zero :: request where
  "post_product_price_zero =
     (request0 ''POST'' ''/api/products'')
       \<lparr>body_name := JStr ''Pen'', body_price := JNum (Fin 0), body_category := JStr ''Office'',
        body_stock := JNum (Fin 5)\<rparr>"

definition post_product_price_string_zero :: request where
  "post_product_price_string_zero =
     (request0 ''POST'' ''/api/products'')
       \<lparr>body_name := JStr ''Pen'', body_price := JStr ''0'', body_category := JStr ''Office'',
        body_stock := JNum (Fin 5)\<rparr>"


definition get_user_99 :: request where
  "get_user_99 = (request0 ''GET'' ''/api/users/99'')\<lparr>params_id := ''99''\<rparr>"

definition delete_user_99 :: request where
  "delete_user_99 = (request0 ''DELETE'' ''/api/users/99'')\<lparr>params_id := ''99''\<rparr>"

section \<open>Basic facts\<close>




lemma error_handler_AppError:
  "c \<noteq> 0 \<Longrightarrow> m \<noteq> [] \<Longrightarrow>
   error_handler e (AppError m c) =
     \<lparr>status = c,
      body = JObj ([(''success'', JBool False), (''error'', JStr m), (''status'', num c)]
                   @ (if NODE_ENV e = Some ''development''
                      then [(''stack'', JStr (err_stack e))] else []))\<rparr>"
  by (simp add: error_handler_def)

lemma dispatch_route:
  "match_route (http_method req) (path req) = Some r \<Longrightarrow>
   dispatch e st req =
     (case handler r e st req of
        (st', Inl err) \<Rightarrow> (st', error_handler e err)
      | (st', Inr res) \<Rightarrow> (st', res))"
  by (simp add: dispatch_def)




lemma findIndex_Some:
  "findIndex P xs = Some i \<Longrightarrow> i < length xs \<and> P (xs ! i) \<and> (\<forall>j<i. \<not> P (xs ! j))"
proof (induction xs arbitrary: i)
  case Nil
  then show ?case by simp
next
  case (Cons x xs)
  show ?case
  proof (cases "P x")
    case True
    with Cons.prems show ?thesis by simp
  next
    case False
    with Cons.prems obtain k where k: "findIndex P xs = Some k" "i = Suc k"
      by auto
    from Cons.IH [OF k(1)] False k(2) show ?thesis
      by (auto simp: less_Suc_eq_0_disj)
  qed
qed

lemma findIndex_None: "findIndex P xs = None \<Longrightarrow> find P xs = None"
  by (induction xs) (auto split: if_splits)







lemma find_append_new:
  "find P (xs @ [x]) = (case find P xs of Some y \<Rightarrow> Some y | None \<Rightarrow> if P x then Some x else None)"
  by (induction xs) auto

lemma find_by_key_None: "k \<notin> set (map f xs) \<Longrightarrow> find (\<lambda>x. f x = k) xs = None"
  by (induction xs) auto

text \<open>
  Where identifiers do not collide, reading back works: a created user is found under
  its identifier when no other user holds it, and a deleted identifier is gone when the
  identifiers were distinct.
\<close>

lemma get_user_after_create:
  assumes "truthy (body_name req)" "truthy (body_email req)"
    and "user_id (newUser e st req) \<notin> set (map user_id (users st))"
    and "params_id req' = user_id (newUser e st req)"
  shows "get_user_by_id (fst (post_users e st req)) req' =
           Inr \<lparr>status = 200,
                body = JObj [(''success'', JBool True),
                             (''data'', user_json (newUser e st req))]\<rparr>"
proof -
  from assms(3,4) have "find (\<lambda>u. user_id u = params_id req') (users st) = None"
    by (simp add: find_by_key_None)
  with assms(1,2,4) show ?thesis
    by (simp add: get_user_by_id_def post_users_def find_append_new)
qed

lemma get_user_after_delete:
  assumes "distinct (map user_id (users st))"
    and "delete_user st req = (st', Inr res)"
  shows "get_user_by_id st' req = Inl (AppError ''User not found'' 404)"
proof -
  from assms(2) obtain i where i: "findIndex (\<lambda>u. user_id u = params_id req) (users st) = Some i"
    and st': "st' = st\<lparr>users := splice1 i (users st)\<rparr>"
    by (auto simp: delete_user_def split: option.splits)
  from findIndex_Some [OF i] have lt: "i < length (users st)"
    and hit: "user_id (users st ! i) = params_id req" by auto
  from lt have "users st = take i (users st) @ users st ! i # drop (Suc i) (users st)"
    by (rule id_take_nth_drop)
  then have "map user_id (users st) =
      map user_id (take i (users st)) @ user_id (users st ! i) # map user_id (drop (Suc i) (users st))"
    by (metis list.simps(9) map_append)
  with assms(1) have "user_id (users st ! i) \<notin> set (map user_id (splice1 i (users st)))"
    by (simp add: splice1_def)
  with hit have "find (\<lambda>u. user_id u = params_id req) (splice1 i (users st)) = None"
    by (simp add: find_by_key_None)
  with st' show ?thesis by (simp add: get_user_by_id_def)
qed

lemma user_merge_eq:
  "old\<lparr>user_name := a, user_email := b\<rparr> =
     \<lparr>user_id = user_id old, user_name = a, user_email = b,
      user_createdAt = user_createdAt old\<rparr>"
  by (cases old) simp

lemma product_merge_eq:
  "old\<lparr>product_name := a, product_price := b, product_category := c, product_stock := d\<rparr> =
     \<lparr>product_id = product_id old, product_name = a, product_price = b,
      product_category = c, product_stock = d\<rparr>"
  by (cases old) simp

lemma put_user_found:
  assumes "findIndex (\<lambda>u. user_id u = params_id req) (users st) = Some i"
    and "new = \<lparr>user_id = user_id (users st ! i),
                user_name = (if truthy (body_name req) then body_name req
                             else user_name (users st ! i)),
                user_email = (if truthy (body_email req) then body_email req
                              else user_email (users st ! i)),
                user_createdAt = user_createdAt (users st ! i)\<rparr>"
  shows "put_user st req =
           (st\<lparr>users := (users st)[i := new]\<rparr>,
            Inr \<lparr>status = 200,
                 body = JObj [(''success'', JBool True),
                              (''message'', JStr ''User updated successfully''),
                              (''data'', user_json new)]\<rparr>)"
  using assms by (simp add: put_user_def Let_def user_merge_eq js_or_def)

lemma put_product_found:
  assumes "findIndex (\<lambda>p. product_id p = params_id req) (products st) = Some k"
    and "new = \<lparr>product_id = product_id (products st ! k),
                product_name = (if truthy (body_name req) then body_name req
                                else product_name (products st ! k)),
                product_price = (if body_price req \<noteq> JUndefined then Number (body_price req)
                                 else product_price (products st ! k)),
                product_category = (if truthy (body_category req) then body_category req
                                    else product_category (products st ! k)),
                product_stock = (if body_stock req \<noteq> JUndefined then Number (body_stock req)
                                 else product_stock (products st ! k))\<rparr>"
  shows "put_product st req =
           (st\<lparr>products := (products st)[k := new]\<rparr>,
            Inr \<lparr>status = 200,
                 body = JObj [(''success'', JBool True),
                              (''message'', JStr ''Product updated successfully''),
                              (''data'', product_json new)]\<rparr>)"
  using assms by (simp add: put_product_def Let_def product_merge_eq js_or_def)






text \<open>
  A stored category need not be a string: the create handler stores any truthy value.
  After \<^verbatim>\<open>POST /api/products {name: "Pen", price: 2, category: 5, stock: 1}\<close> a list
  request with a category filter throws inside the filter callback and is answered 500.
\<close>

lemma get_products_non_string_category:
  "status (snd (dispatch env0 (initial_store 0) post_product_numeric_category)) = 201
   \<and> snd (dispatch env0 (fst (dispatch env0 (initial_store 0) post_product_numeric_category))
            get_products_peripherals_200) =
       \<lparr>status = 500,
        body = JObj [(''success'', JBool False),
                     (''error'', JStr ''p.category.toLowerCase is not a function''),
                     (''status'', num 500)]\<rparr>"
  by code_simp

lemma put_user_not_found:
  "findIndex (\<lambda>u. user_id u = params_id req) (users st) = None \<Longrightarrow>
   fst (put_user st req) = st"
  by (simp add: put_user_def)

lemma put_product_not_found:
  "findIndex (\<lambda>p. product_id p = params_id req) (products st) = None \<Longrightarrow>
   fst (put_product st req) = st"
  by (simp add: put_product_def)

lemma put_user_no_empty:
  assumes "j < length (users st)"
  shows "(user_name (users (fst (put_user st req)) ! j) = JStr [] \<longrightarrow>
            user_name (users st ! j) = JStr [])
       \<and> (user_email (users (fst (put_user st req)) ! j) = JStr [] \<longrightarrow>
            user_email (users st ! j) = JStr [])"
proof (cases "findIndex (\<lambda>u. user_id u = params_id req) (users st)")
  case None
  then show ?thesis by (simp add: put_user_not_found)
next
  case (Some i)
  show ?thesis
  proof (cases "j = i")
    case True
    with assms show ?thesis
      by (auto simp: put_user_found [OF Some refl] split: if_splits)
  next
    case False
    then show ?thesis by (simp add: put_user_found [OF Some refl])
  qed
qed

lemma put_product_no_empty:
  assumes "j < length (products st)"
  shows "(product_name (products (fst (put_product st req)) ! j) = JStr [] \<longrightarrow>
            product_name (products st ! j) = JStr [])
       \<and> (product_category (products (fst (put_product st req)) ! j) = JStr [] \<longrightarrow>
            product_category (products st ! j) = JStr [])"
proof (cases "findIndex (\<lambda>p. product_id p = params_id req) (products st)")
  case None
  then show ?thesis by (simp add: put_product_not_found)
next
  case (Some k)
  show ?thesis
  proof (cases "j = k")
    case True
    with assms show ?thesis
      by (auto simp: put_product_found [OF Some refl] split: if_splits)
  next
    case False
    then show ?thesis by (simp add: put_product_found [OF Some refl])
  qed
qed

lemma category_toLowerCase_error:
  "category_toLowerCase v = Inl err \<Longrightarrow> \<exists>m. err = TypeError m \<and> m \<noteq> []"
  by (cases v) auto

lemma filter_category_error:
  "filter_category c ps = Inl err \<Longrightarrow> \<exists>m. err = TypeError m \<and> m \<noteq> []"
proof (induction ps)
  case Nil
  then show ?case by simp
next
  case (Cons p ps)
  then show ?case
    by (auto split: sum.splits dest: category_toLowerCase_error)
qed

lemma get_products_error:
  "get_products st req = Inl err \<Longrightarrow> \<exists>m. err = TypeError m \<and> m \<noteq> []"
  by (auto simp: get_products_def Let_def split: option.splits if_splits sum.splits
      dest: filter_category_error)

lemma handler_failure:
  assumes "handler r e st req = (st', Inl err)"
  shows "st' = st \<and>
         ((\<exists>m c. err = AppError m c \<and> m \<noteq> [] \<and> (c = 400 \<or> c = 404))
          \<or> (\<exists>m. err = TypeError m \<and> m \<noteq> []))"
proof (cases r)
  case GetUserById
  with assms show ?thesis by (auto simp: get_user_by_id_def split: option.splits)
next
  case PostUsers
  with assms show ?thesis by (auto simp: post_users_def split: if_splits)
next
  case PutUser
  with assms show ?thesis by (auto simp: put_user_def Let_def split: option.splits)
next
  case DeleteUser
  with assms show ?thesis by (auto simp: delete_user_def split: option.splits)
next
  case GetProducts
  with assms show ?thesis by (auto dest: get_products_error)
next
  case GetProductById
  with assms show ?thesis by (auto simp: get_product_by_id_def split: option.splits)
next
  case PostProducts
  with assms show ?thesis by (auto simp: post_products_def split: if_splits)
next
  case PutProduct
  with assms show ?thesis by (auto simp: put_product_def Let_def split: option.splits)
next
  case DeleteProduct
  with assms show ?thesis by (auto simp: delete_product_def split: option.splits)
qed (use assms in auto)

section \<open>The claims\<close>

text \<open>
  C1. Reading an entity back by its identifier after a create, and missing it after a
  delete, fails on the code once a delete has shortened the array. In the run
  \<^verbatim>\<open>DELETE /api/users/1\<close>, \<^verbatim>\<open>POST /api/users\<close> from the seeded store, the create returns the
  new user A with the identifier \<^verbatim>\<open>"2"\<close>, which Jane Smith already holds:
  \<^verbatim>\<open>GET /api/users/2\<close> then returns Jane Smith, not A. After \<^verbatim>\<open>DELETE /api/users/2\<close>
  succeeds, \<^verbatim>\<open>GET /api/users/2\<close> still succeeds, now with A, instead of 404.
\<close>

theorem C1_id_collision_after_delete:
  "run (initial_store 0) after_delete_1
   \<and> run (initial_store 0) after_create_A
   \<and> run (initial_store 0) after_delete_2
   \<and> snd (dispatch env0 after_delete_1 post_user_A) =
     \<lparr>status = 201,
      body = JObj [(''success'', JBool True),
                   (''message'', JStr ''User created successfully''),
                   (''data'', JObj [(''id'', JStr ''2''), (''name'', JStr ''A''),
                                    (''email'', JStr ''a@x.com''),
                                    (''createdAt'', JDate 1700000000000)])]\<rparr>
   \<and> snd (dispatch env0 after_create_A get_user_2) =
     \<lparr>status = 200,
      body = JObj [(''success'', JBool True),
                   (''data'', JObj [(''id'', JStr ''2''), (''name'', JStr ''Jane Smith''),
                                    (''email'', JStr ''jane@example.com''),
                                    (''createdAt'', JDate 0)])]\<rparr>
   \<and> snd (dispatch env0 after_create_A delete_user_2) =
     \<lparr>status = 200,
      body = JObj [(''success'', JBool True),
                   (''message'', JStr ''User deleted successfully'')]\<rparr>
   \<and> snd (dispatch env0 after_delete_2 get_user_2) =
     \<lparr>status = 200,
      body = JObj [(''success'', JBool True),
                   (''data'', JObj [(''id'', JStr ''2''), (''name'', JStr ''A''),
                                    (''email'', JStr ''a@x.com''),
                                    (''createdAt'', JDate 1700000000000)])]\<rparr>"
proof -
  have r1: "run (initial_store 0) after_delete_1"
    unfolding after_delete_1_def by (rule run_step) (rule run_refl)
  have r2: "run (initial_store 0) after_create_A"
    unfolding after_create_A_def using r1 by (rule run_step)
  have r3: "run (initial_store 0) after_delete_2"
    unfolding after_delete_2_def using r2 by (rule run_step)
  have created: "snd (dispatch env0 after_delete_1 post_user_A) =
     \<lparr>status = 201,
      body = JObj [(''success'', JBool True),
                   (''message'', JStr ''User created successfully''),
                   (''data'', JObj [(''id'', JStr ''2''), (''name'', JStr ''A''),
                                    (''email'', JStr ''a@x.com''),
                                    (''createdAt'', JDate 1700000000000)])]\<rparr>"
    by code_simp
  have read_back: "snd (dispatch env0 after_create_A get_user_2) =
     \<lparr>status = 200,
      body = JObj [(''success'', JBool True),
                   (''data'', JObj [(''id'', JStr ''2''), (''name'', JStr ''Jane Smith''),
                                    (''email'', JStr ''jane@example.com''),
                                    (''createdAt'', JDate 0)])]\<rparr>"
    by code_simp
  have deleted: "snd (dispatch env0 after_create_A delete_user_2) =
     \<lparr>status = 200,
      body = JObj [(''success'', JBool True),
                   (''message'', JStr ''User deleted successfully'')]\<rparr>"
    by code_simp
  have still_there: "snd (dispatch env0 after_delete_2 get_user_2) =
     \<lparr>status = 200,
      body = JObj [(''success'', JBool True),
                   (''data'', JObj [(''id'', JStr ''2''), (''name'', JStr ''A''),
                                    (''email'', JStr ''a@x.com''),
                                    (''createdAt'', JDate 1700000000000)])]\<rparr>"
    by code_simp
  from r1 r2 r3 created read_back deleted still_there show ?thesis
    by (intro conjI)
qed






text \<open>
  C4. A create request in which a required field is absent (name or email for a user;
  name, price, category or stock for a product) is rejected: the handler signals the
  AppError with the fixed message and status code 400 and leaves the store as it was,
  and the response sent for the matched route has status 400 and that message.
\<close>

theorem C4_create_missing_field_rejected:
  assumes "match_route (http_method req) (path req) = Some r"
    and "(r = PostUsers \<and> (body_name req = JUndefined \<or> body_email req = JUndefined)
            \<and> msg = ''Name and email are required'')
         \<or> (r = PostProducts \<and> (body_name req = JUndefined \<or> body_price req = JUndefined
              \<or> body_category req = JUndefined \<or> body_stock req = JUndefined)
            \<and> msg = ''All fields are required'')"
  shows "handler r e st req = (st, Inl (AppError msg 400)) \<and>
         dispatch e st req =
           (st, \<lparr>status = 400,
                 body = JObj ([(''success'', JBool False), (''error'', JStr msg),
                               (''status'', num 400)]
                              @ (if NODE_ENV e = Some ''development''
                                 then [(''stack'', JStr (err_stack e))] else []))\<rparr>)"
proof -
  have h: "handler r e st req = (st, Inl (AppError msg 400))"
    using assms(2) by (auto simp: post_users_def post_products_def)
  have m: "msg \<noteq> []" using assms(2) by auto
  from assms(1) h m show ?thesis
    by (simp add: dispatch_route error_handler_AppError)
qed

theorem C4_witness:
  "match_route ''POST'' ''/api/products'' = Some PostProducts \<and>
   body_stock ((request0 ''POST'' ''/api/products'')
      \<lparr>body_name := JStr ''Pen'', body_price := JNum (Fin 2), body_category := JStr ''Office''\<rparr>)
     = JUndefined \<and>
   dispatch env0 (initial_store 0)
     ((request0 ''POST'' ''/api/products'')
      \<lparr>body_name := JStr ''Pen'', body_price := JNum (Fin 2), body_category := JStr ''Office''\<rparr>)
   = (initial_store 0,
      \<lparr>status = 400,
        body = JObj [(''success'', JBool False), (''error'', JStr ''All fields are required''),
                     (''status'', num 400)]\<rparr>)"
proof -
  have m: "match_route ''POST'' ''/api/products'' = Some PostProducts" by code_simp
  show ?thesis
    using m C4_create_missing_field_rejected
      [of "(request0 ''POST'' ''/api/products'')
             \<lparr>body_name := JStr ''Pen'', body_price := JNum (Fin 2),
              body_category := JStr ''Office''\<rparr>"
          PostProducts "''All fields are required''" env0 "initial_store 0"]
    by (simp add: request0_def env0_def)
qed







text \<open>
  C7, as the claim states it, fails: the rendered body does not always have exactly
  the three fields. With \<^verbatim>\<open>NODE_ENV=development\<close>, \<^verbatim>\<open>GET /api/users/99\<close> is answered with a
  body that has the fourth field \<^verbatim>\<open>stack\<close>.
\<close>

theorem C7_development_body_has_stack:
  "snd (dispatch env_dev (initial_store 0) get_user_99) =
     \<lparr>status = 404,
      body = JObj [(''success'', JBool False), (''error'', JStr ''User not found''),
                   (''status'', num 404), (''stack'', JStr ''Error: User not found'')]\<rparr>
   \<and> body (snd (dispatch env_dev (initial_store 0) get_user_99)) \<noteq>
       JObj [(''success'', JBool False), (''error'', JStr ''User not found''),
             (''status'', num 404)]"
  by code_simp

text \<open>
  C7, amended. A failure that the handler of a matched route signals is an AppError
  with a non-empty message and status code 400 or 404, or a TypeError thrown by the
  product filter; the handler itself sends nothing, and the response is the one the
  error handler renders. Its body is \<^verbatim>\<open>{success: false, error: <message>, status: <code>}\<close>,
  followed by the field \<^verbatim>\<open>stack\<close> exactly when \<^verbatim>\<open>NODE_ENV\<close> is \<^verbatim>\<open>development\<close>; the code in
  the body is the HTTP status of the response; and an error without a status code is
  rendered with status 500.
\<close>

theorem C7_failures_rendered_by_error_handler:
  assumes "match_route (http_method req) (path req) = Some r"
    and "handler r e st req = (st', Inl err)"
  shows "dispatch e st req = (st', error_handler e err)
       \<and> ((\<exists>m c. err = AppError m c \<and> m \<noteq> [] \<and> (c = 400 \<or> c = 404))
          \<or> (\<exists>m. err = TypeError m \<and> m \<noteq> []))
       \<and> error_handler e err =
           \<lparr>status = (case statusCode err of None \<Rightarrow> 500 | Some c \<Rightarrow> c),
            body = JObj ([(''success'', JBool False), (''error'', JStr (message err)),
                          (''status'',
                             num (case statusCode err of None \<Rightarrow> 500 | Some c \<Rightarrow> c))]
                         @ (if NODE_ENV e = Some ''development''
                            then [(''stack'', JStr (err_stack e))] else []))\<rparr>
       \<and> (\<forall>x. statusCode x = None \<longrightarrow> status (error_handler e x) = 500)"
proof -
  from assms have d: "dispatch e st req = (st', error_handler e err)"
    by (simp add: dispatch_route)
  from handler_failure [OF assms(2)]
  have k: "(\<exists>m c. err = AppError m c \<and> m \<noteq> [] \<and> (c = 400 \<or> c = 404))
          \<or> (\<exists>m. err = TypeError m \<and> m \<noteq> [])"
    by simp
  from k have r: "error_handler e err =
           \<lparr>status = (case statusCode err of None \<Rightarrow> 500 | Some c \<Rightarrow> c),
            body = JObj ([(''success'', JBool False), (''error'', JStr (message err)),
                          (''status'',
                             num (case statusCode err of None \<Rightarrow> 500 | Some c \<Rightarrow> c))]
                         @ (if NODE_ENV e = Some ''development''
                            then [(''stack'', JStr (err_stack e))] else []))\<rparr>"
    by (auto simp: error_handler_def)
  have n: "\<forall>x. statusCode x = None \<longrightarrow> status (error_handler e x) = 500"
    by (simp add: error_handler_def)
  from d k r n show ?thesis by blast
qed

theorem C7_witness:
  "match_route (http_method delete_user_99) (path delete_user_99) = Some DeleteUser
   \<and> handler DeleteUser env0 (initial_store 0) delete_user_99 =
       (initial_store 0, Inl (AppError ''User not found'' 404))
   \<and> dispatch env0 (initial_store 0) delete_user_99 =
       (initial_store 0,
        \<lparr>status = 404,
          body = JObj [(''success'', JBool False), (''error'', JStr ''User not found''),
                       (''status'', num 404)]\<rparr>)"
proof -
  have m: "match_route (http_method delete_user_99) (path delete_user_99) = Some DeleteUser"
    by code_simp
  have h: "handler DeleteUser env0 (initial_store 0) delete_user_99 =
       (initial_store 0, Inl (AppError ''User not found'' 404))"
    by code_simp
  from C7_failures_rendered_by_error_handler [OF m h]
  have "dispatch env0 (initial_store 0) delete_user_99 =
          (initial_store 0, error_handler env0 (AppError ''User not found'' 404))
      \<and> error_handler env0 (AppError ''User not found'' 404) =
           \<lparr>status = (case statusCode (AppError ''User not found'' 404) of
                         None \<Rightarrow> 500 | Some c \<Rightarrow> c),
            body = JObj ([(''success'', JBool False),
                          (''error'', JStr (message (AppError ''User not found'' 404))),
                          (''status'',
                             num (case statusCode (AppError ''User not found'' 404) of
                                    None \<Rightarrow> 500 | Some c \<Rightarrow> c))]
                         @ (if NODE_ENV env0 = Some ''development''
                            then [(''stack'', JStr (err_stack env0))] else []))\<rparr>"
    by blast
  with m h show ?thesis by (simp add: env0_def)
qed



text \<open>
  C9, as the claim states it, fails in its conclusion: a product with price \<open>0\<close> can be
  created. \<^verbatim>\<open>POST /api/products {name: "Pen", price: "0", category: "Office", stock: 5}\<close>
  carries the price as the non-empty string \<^verbatim>\<open>"0"\<close>, which is truthy, and
  \<^verbatim>\<open>Number("0")\<close> stores the price \<open>0\<close>.
\<close>

theorem C9_price_zero_created_from_string:
  "body_price post_product_price_string_zero = JStr ''0''
   \<and> post_products (initial_store 0) post_product_price_string_zero =
       (\<lparr>users = initial_users 0,
         products = initial_products @
           [\<lparr>product_id = ''4'', product_name = JStr ''Pen'', product_price = Fin 0,
             product_category = JStr ''Office'', product_stock = Fin 5\<rparr>]\<rparr>,
        Inr \<lparr>status = 201,
             body = JObj [(''success'', JBool True),
                          (''message'', JStr ''Product created successfully''),
                          (''data'', JObj [(''id'', JStr ''4''), (''name'', JStr ''Pen''),
                                           (''price'', JNum (Fin 0)),
                                           (''category'', JStr ''Office''),
                                           (''stock'', JNum (Fin 5))])]\<rparr>)"
  by code_simp

text \<open>
  C9, amended. For a product create, a price that is falsy, in particular the number
  \<open>0\<close> or the empty string, is rejected with the 400 AppError
  \<^verbatim>\<open>All fields are required\<close> although the field was provided, and the store is left as
  it was: price is tested for truthiness where stock is tested against
  \<^verbatim>\<open>undefined\<close>. So every product that is created comes from a truthy price value, and
  its stored price is \<^verbatim>\<open>Number\<close> of that value (which is \<open>0\<close> for a value such as
  \<^verbatim>\<open>"0"\<close>).
\<close>

theorem C9_falsy_price_rejected:
  "(\<not> truthy (body_price req) \<longrightarrow>
      post_products st req = (st, Inl (AppError ''All fields are required'' 400)))
   \<and> (body_price req = JNum (Fin 0) \<or> body_price req = JStr [] \<longrightarrow>
      post_products st req = (st, Inl (AppError ''All fields are required'' 400)))
   \<and> (post_products st req = (st', Inr res) \<longrightarrow>
        truthy (body_price req)
        \<and> products st' = products st @ [newProduct st req]
        \<and> product_price (newProduct st req) = Number (body_price req))"
  by (auto simp: post_products_def newProduct_def split: if_splits)

theorem C9_witness:
  "body_price post_product_price_zero = JNum (Fin 0)
   \<and> post_products (initial_store 0) post_product_price_zero =
       (initial_store 0, Inl (AppError ''All fields are required'' 400))"
proof -
  have v: "body_price post_product_price_zero = JNum (Fin 0)"
    by (simp add: post_product_price_zero_def request0_def)
  with C9_falsy_price_rejected [of post_product_price_zero "initial_store 0"]
  show ?thesis by simp
qed

text \<open>
  C10. In an update, an empty string provided for a string field (name or email of a
  user, name or category of a product) is treated as absent: the request has the same
  effect and the same response as the request without that field, so the prior value
  is retained. An update never turns a stored string field into the empty string:
  a name, email or category that is empty after the update was empty before.
\<close>

theorem C10_update_empty_string_is_absent:
  "(body_name req = JStr [] \<longrightarrow>
      put_user st req = put_user st (req\<lparr>body_name := JUndefined\<rparr>)
      \<and> put_product st req = put_product st (req\<lparr>body_name := JUndefined\<rparr>))
   \<and> (body_email req = JStr [] \<longrightarrow>
      put_user st req = put_user st (req\<lparr>body_email := JUndefined\<rparr>))
   \<and> (body_category req = JStr [] \<longrightarrow>
      put_product st req = put_product st (req\<lparr>body_category := JUndefined\<rparr>))
   \<and> (findIndex (\<lambda>u. user_id u = params_id req) (users st) = Some i \<longrightarrow>
        (body_name req = JStr [] \<longrightarrow>
           user_name (users (fst (put_user st req)) ! i) = user_name (users st ! i))
        \<and> (body_email req = JStr [] \<longrightarrow>
           user_email (users (fst (put_user st req)) ! i) = user_email (users st ! i)))
   \<and> (findIndex (\<lambda>p. product_id p = params_id req) (products st) = Some k \<longrightarrow>
        (body_name req = JStr [] \<longrightarrow>
           product_name (products (fst (put_product st req)) ! k) = product_name (products st ! k))
        \<and> (body_category req = JStr [] \<longrightarrow>
           product_category (products (fst (put_product st req)) ! k)
             = product_category (products st ! k)))
   \<and> (\<forall>j < length (users st).
        (user_name (users (fst (put_user st req)) ! j) = JStr [] \<longrightarrow>
           user_name (users st ! j) = JStr [])
        \<and> (user_email (users (fst (put_user st req)) ! j) = JStr [] \<longrightarrow>
           user_email (users st ! j) = JStr []))
   \<and> (\<forall>j < length (products st).
        (product_name (products (fst (put_product st req)) ! j) = JStr [] \<longrightarrow>
           product_name (products st ! j) = JStr [])
        \<and> (product_category (products (fst (put_product st req)) ! j) = JStr [] \<longrightarrow>
           product_category (products st ! j) = JStr []))"
proof (intro conjI impI allI)
  assume "body_name req = JStr []"
  then show "put_user st req = put_user st (req\<lparr>body_name := JUndefined\<rparr>)"
    by (simp add: put_user_def js_or_def split: option.splits)
next
  assume "body_name req = JStr []"
  then show "put_product st req = put_product st (req\<lparr>body_name := JUndefined\<rparr>)"
    by (simp add: put_product_def js_or_def split: option.splits)
next
  assume "body_email req = JStr []"
  then show "put_user st req = put_user st (req\<lparr>body_email := JUndefined\<rparr>)"
    by (simp add: put_user_def js_or_def split: option.splits)
next
  assume "body_category req = JStr []"
  then show "put_product st req = put_product st (req\<lparr>body_category := JUndefined\<rparr>)"
    by (simp add: put_product_def js_or_def split: option.splits)
next
  assume i: "findIndex (\<lambda>u. user_id u = params_id req) (users st) = Some i"
    and "body_name req = JStr []"
  with findIndex_Some [OF i]
  show "user_name (users (fst (put_user st req)) ! i) = user_name (users st ! i)"
    by (simp add: put_user_found [OF i refl])
next
  assume i: "findIndex (\<lambda>u. user_id u = params_id req) (users st) = Some i"
    and "body_email req = JStr []"
  with findIndex_Some [OF i]
  show "user_email (users (fst (put_user st req)) ! i) = user_email (users st ! i)"
    by (simp add: put_user_found [OF i refl])
next
  assume k: "findIndex (\<lambda>p. product_id p = params_id req) (products st) = Some k"
    and "body_name req = JStr []"
  with findIndex_Some [OF k]
  show "product_name (products (fst (put_product st req)) ! k) = product_name (products st ! k)"
    by (simp add: put_product_found [OF k refl])
next
  assume k: "findIndex (\<lambda>p. product_id p = params_id req) (products st) = Some k"
    and "body_category req = JStr []"
  with findIndex_Some [OF k]
  show "product_category (products (fst (put_product st req)) ! k)
          = product_category (products st ! k)"
    by (simp add: put_product_found [OF k refl])
next
  fix j assume "j < length (users st)"
    and "user_name (users (fst (put_user st req)) ! j) = JStr []"
  with put_user_no_empty [of j st req] show "user_name (users st ! j) = JStr []" by simp
next
  fix j assume "j < length (users st)"
    and "user_email (users (fst (put_user st req)) ! j) = JStr []"
  with put_user_no_empty [of j st req] show "user_email (users st ! j) = JStr []" by simp
next
  fix j assume "j < length (products st)"
    and "product_name (products (fst (put_product st req)) ! j) = JStr []"
  with put_product_no_empty [of j st req] show "product_name (products st ! j) = JStr []"
    by simp
next
  fix j assume "j < length (products st)"
    and "product_category (products (fst (put_product st req)) ! j) = JStr []"
  with put_product_no_empty [of j st req] show "product_category (products st ! j) = JStr []"
    by simp
qed

theorem C10_witness:
  "body_name put_user_1_empty_name = JStr []
   \<and> findIndex (\<lambda>u. user_id u = params_id put_user_1_empty_name) (users (initial_store 0))
       = Some 0
   \<and> put_user (initial_store 0) put_user_1_empty_name =
       put_user (initial_store 0) (put_user_1_empty_name\<lparr>body_name := JUndefined\<rparr>)
   \<and> user_name (users (fst (put_user (initial_store 0) put_user_1_empty_name)) ! 0) =
       JStr ''John Doe''"
proof -
  have v: "body_name put_user_1_empty_name = JStr []"
    by (simp add: put_user_1_empty_name_def request0_def)
  have i: "findIndex (\<lambda>u. user_id u = params_id put_user_1_empty_name)
             (users (initial_store 0)) = Some 0"
    by (simp add: put_user_1_empty_name_def request0_def initial_store_def initial_users_def)
  have old: "user_name (users (initial_store 0) ! 0) = JStr ''John Doe''"
    by (simp add: initial_store_def initial_users_def)
  from C10_update_empty_string_is_absent [of put_user_1_empty_name "initial_store 0" 0 0] v i
  have "put_user (initial_store 0) put_user_1_empty_name =
          put_user (initial_store 0) (put_user_1_empty_name\<lparr>body_name := JUndefined\<rparr>)
        \<and> user_name (users (fst (put_user (initial_store 0) put_user_1_empty_name)) ! 0) =
            user_name (users (initial_store 0) ! 0)"
    by blast
  then have eq: "put_user (initial_store 0) put_user_1_empty_name =
          put_user (initial_store 0) (put_user_1_empty_name\<lparr>body_name := JUndefined\<rparr>)"
    and kept: "user_name (users (fst (put_user (initial_store 0) put_user_1_empty_name)) ! 0) =
            user_name (users (initial_store 0) ! 0)"
    by blast+
  from kept old
  have "user_name (users (fst (put_user (initial_store 0) put_user_1_empty_name)) ! 0) =
          JStr ''John Doe''"
    by (rule trans)
  with v i eq show ?thesis by blast
qed

end
